theory Spec2Isabelle
  imports Complex_Main
begin

section \<open>Values held in a Go \<open>interface{}\<close>\<close>

text \<open>
  Keys and values of errprops are Go \<^verbatim>\<open>interface{}\<close> values. The library never looks
  inside them: it compares keys with \<^verbatim>\<open>==\<close> and hands keys and values to \<^verbatim>\<open>fmt\<close>.
  The model keeps a fragment of Go's dynamic values that shows every outcome \<^verbatim>\<open>==\<close> can
  have on two interface values: the nil interface, \<^verbatim>\<open>bool\<close>, \<^verbatim>\<open>int\<close>, \<^verbatim>\<open>string\<close>,
  \<^verbatim>\<open>float64\<close>, the slice type \<^verbatim>\<open>[]interface{}\<close> (not comparable) and the array
  types \<^verbatim>\<open>[n]interface{}\<close> (comparable, with elements that are interface values again;
  a struct with fields of interface type behaves the same way).
\<close>

datatype float64 = NaN | PosInf | NegInf | Finite rat

datatype gval =
    VNil
  | VBool bool
  | VInt int
  | VStr string
  | VFloat float64
  | VSlice "gval list"
  | VArray "gval list"

text \<open>
  A run-time panic. \<open>NilDereference\<close> is "invalid memory address or nil pointer
  dereference" (a method called on a nil interface); \<open>Uncomparable\<close> is "comparing
  uncomparable type" (\<^verbatim>\<open>==\<close> reaching two interface values of one dynamic type that is
  a slice).
\<close>

datatype panic = NilDereference | Uncomparable

type_synonym 'a result = "panic + 'a"

text \<open>\<^verbatim>\<open>==\<close> on \<^verbatim>\<open>float64\<close>: NaN is equal to nothing, itself included.\<close>

fun float64_eq :: "float64 \<Rightarrow> float64 \<Rightarrow> bool" where
  "float64_eq NaN y = False"
| "float64_eq x NaN = False"
| "float64_eq x y = (x = y)"

text \<open>
  \<^verbatim>\<open>==\<close> on two interface values, as in \<^verbatim>\<open>key == e.key\<close>: values of different dynamic
  types are unequal, values of one comparable dynamic type are compared, and two values
  of one uncomparable dynamic type make the comparison panic. Two arrays of one type
  \<^verbatim>\<open>[n]interface{}\<close> are compared element by element in increasing index order, each pair
  of elements as interface values, and the comparison stops at the first pair that
  differs; so it panics when it reaches two elements of one uncomparable dynamic type.
  Arrays of different lengths have different types.
\<close>

fun go_eq :: "gval \<Rightarrow> gval \<Rightarrow> bool result"
and go_eq_elems :: "gval list \<Rightarrow> gval list \<Rightarrow> bool result" where
  "go_eq VNil VNil = Inr True"
| "go_eq (VBool a) (VBool b) = Inr (a = b)"
| "go_eq (VInt a) (VInt b) = Inr (a = b)"
| "go_eq (VStr a) (VStr b) = Inr (a = b)"
| "go_eq (VFloat a) (VFloat b) = Inr (float64_eq a b)"
| "go_eq (VSlice a) (VSlice b) = Inl Uncomparable"
| "go_eq (VArray a) (VArray b) =
     (if length a = length b then go_eq_elems a b else Inr False)"
| "go_eq x y = Inr False"
| "go_eq_elems [] [] = Inr True"
| "go_eq_elems (x # xs) (y # ys) =
     (case go_eq x y of
        Inl p \<Rightarrow> Inl p
      | Inr False \<Rightarrow> Inr False
      | Inr True \<Rightarrow> go_eq_elems xs ys)"
| "go_eq_elems xs ys = Inr False"

section \<open>Error values\<close>

text \<open>
  \<^verbatim>\<open>errors.Stacktrace\<close> is a slice of program counters; \<open>None\<close> is the nil slice.
\<close>

type_synonym Stacktrace = "nat list option"

text \<open>The flags, width and precision of a \<^verbatim>\<open>fmt.State\<close>, and the state with its output.\<close>

record fmt_flags =
  plus :: bool
  sharp :: bool
  minus :: bool
  space :: bool
  zero :: bool
  wid :: "nat option"
  prec :: "nat option"

record fmt_State =
  flags :: fmt_flags
  buf :: string

text \<open>
  An error type from outside the package. \<open>message\<close> is what its \<^verbatim>\<open>Error()\<close> returns.
  Each optional capability is \<open>None\<close> when the type does not implement the interface:
  \<open>stack\<close> for \<^verbatim>\<open>hasStacktrace\<close>, \<open>props\<close> for \<^verbatim>\<open>hasProps\<close> (its node-local
  \<^verbatim>\<open>Get\<close>), \<open>formatter\<close> for \<^verbatim>\<open>fmt.Formatter\<close> (the text its \<^verbatim>\<open>Format\<close> writes, given
  the state's flags and the verb). The \<^verbatim>\<open>hasCause\<close> capability is the constructor
  \<open>Wrapper\<close> below.
\<close>

record foreign =
  message :: string
  stack :: "Stacktrace option"
  props :: "(gval \<Rightarrow> gval \<times> bool) option"
  formatter :: "(fmt_flags \<Rightarrow> char \<Rightarrow> string) option"

text \<open>
  A value of the interface type \<^verbatim>\<open>error\<close>:
  \<^item> \<open>nil_error\<close>, the nil interface;
  \<^item> \<open>Opaque fo\<close>, a foreign error that does not implement \<^verbatim>\<open>hasCause\<close>;
  \<^item> \<open>Wrapper fo c\<close>, a foreign error that implements \<^verbatim>\<open>hasCause\<close>; its \<^verbatim>\<open>Cause()\<close>
    returns \<open>c\<close> (which may be \<open>nil_error\<close>);
  \<^item> \<open>Prop p\<close>, a \<^verbatim>\<open>PropError\<close> of this package seen as an \<^verbatim>\<open>error\<close>.

  A \<^verbatim>\<open>PropError\<close> is \<^verbatim>\<open>baseError{err}\<close> or \<^verbatim>\<open>&keyValueError{PropError, key, value}\<close>:
  the interface has an unexported method and both struct types are unexported, so these
  are its only values, and a \<^verbatim>\<open>keyValueError\<close> is only ever built by \<^verbatim>\<open>WithValue\<close>.
  Errors are finite values: a cause cycle cannot be written in this type.
\<close>

datatype error =
    nil_error
  | Opaque foreign
  | Wrapper foreign error
  | Prop PropError
and PropError =
    baseError error
  | keyValueError PropError gval gval

section \<open>The operations of errors.go\<close>

text \<open>\<^verbatim>\<open>func From(err error) PropError { return baseError{err} }\<close>\<close>

definition From :: "error \<Rightarrow> PropError" where
  "From err = baseError err"

text \<open>
  \<^verbatim>\<open>baseError.WithValue\<close> and \<^verbatim>\<open>keyValueError.WithValue\<close>: both return a new
  \<^verbatim>\<open>keyValueError\<close> whose embedded \<^verbatim>\<open>PropError\<close> is the receiver.
\<close>

fun WithValue :: "PropError \<Rightarrow> gval \<Rightarrow> gval \<Rightarrow> PropError" where
  "WithValue (baseError err) key val = keyValueError (baseError err) key val"
| "WithValue (keyValueError p k v) key val = keyValueError (keyValueError p k v) key val"

text \<open>
  \<^verbatim>\<open>Error()\<close>. \<^verbatim>\<open>baseError\<close> embeds the interface \<^verbatim>\<open>error\<close> and \<^verbatim>\<open>keyValueError\<close>
  embeds \<^verbatim>\<open>PropError\<close>, so \<^verbatim>\<open>Error\<close> is promoted from the embedded value. Calling it
  on the nil interface panics.
\<close>

fun Error :: "error \<Rightarrow> string result"
and PropError_Error :: "PropError \<Rightarrow> string result" where
  "Error nil_error = Inl NilDereference"
| "Error (Opaque fo) = Inr (message fo)"
| "Error (Wrapper fo c) = Inr (message fo)"
| "Error (Prop p) = PropError_Error p"
| "PropError_Error (baseError err) = Error err"
| "PropError_Error (keyValueError p k v) = PropError_Error p"

text \<open>
  \<open>hasCause err\<close> is the type assertion \<^verbatim>\<open>err.(hasCause)\<close> followed by \<^verbatim>\<open>Cause()\<close>:
  \<open>None\<close> when the assertion fails (also on the nil interface), \<open>Some c\<close> when
  \<^verbatim>\<open>Cause()\<close> returns \<open>c\<close>. \<open>Cause\<close> is the method of \<^verbatim>\<open>PropError\<close>:
  \<^verbatim>\<open>baseError.Cause\<close>, and its promotion through the embedded field of \<^verbatim>\<open>keyValueError\<close>.
\<close>

fun hasCause :: "error \<Rightarrow> error option"
and Cause :: "PropError \<Rightarrow> error" where
  "hasCause nil_error = None"
| "hasCause (Opaque fo) = None"
| "hasCause (Wrapper fo c) = Some c"
| "hasCause (Prop p) = Some (Cause p)"
| "Cause (baseError err) = (case hasCause err of Some c \<Rightarrow> c | None \<Rightarrow> nil_error)"
| "Cause (keyValueError p k v) = Cause p"

text \<open>\<^verbatim>\<open>err.(hasStacktrace)\<close> and \<^verbatim>\<open>Stacktrace()\<close>, in the same way.\<close>

fun hasStacktrace :: "error \<Rightarrow> Stacktrace option"
and Stacktrace :: "PropError \<Rightarrow> Stacktrace" where
  "hasStacktrace nil_error = None"
| "hasStacktrace (Opaque fo) = stack fo"
| "hasStacktrace (Wrapper fo c) = stack fo"
| "hasStacktrace (Prop p) = Some (Stacktrace p)"
| "Stacktrace (baseError err) = (case hasStacktrace err of Some s \<Rightarrow> s | None \<Rightarrow> None)"
| "Stacktrace (keyValueError p k v) = Stacktrace p"

text \<open>
  \<open>hasProps err key\<close> is the type assertion \<^verbatim>\<open>err.(hasProps)\<close> followed by the node's
  own \<^verbatim>\<open>Get(key)\<close>: \<open>None\<close> when the assertion fails. \<open>PropError_Get\<close> is the method
  \<^verbatim>\<open>Get\<close> of a \<^verbatim>\<open>PropError\<close>:
  \<^verbatim>\<open>
  func (e baseError) Get(key interface{}) (interface{}, bool) {
      if e, ok := e.error.(hasProps); ok { return e.Get(key) }
      return nil, false
  }
  func (e *keyValueError) Get(key interface{}) (interface{}, bool) {
      if key == e.key { return e.value, true }
      return e.PropError.Get(key)
  }
  \<close>
\<close>

fun hasProps :: "error \<Rightarrow> gval \<Rightarrow> (gval \<times> bool) result option"
and PropError_Get :: "PropError \<Rightarrow> gval \<Rightarrow> (gval \<times> bool) result" where
  "hasProps nil_error key = None"
| "hasProps (Opaque fo) key = map_option (\<lambda>g. Inr (g key)) (props fo)"
| "hasProps (Wrapper fo c) key = map_option (\<lambda>g. Inr (g key)) (props fo)"
| "hasProps (Prop p) key = Some (PropError_Get p key)"
| "PropError_Get (baseError err) key =
     (case hasProps err key of Some r \<Rightarrow> r | None \<Rightarrow> Inr (VNil, False))"
| "PropError_Get (keyValueError p k v) key =
     (case go_eq key k of
        Inl x \<Rightarrow> Inl x
      | Inr True \<Rightarrow> Inr (v, True)
      | Inr False \<Rightarrow> PropError_Get p key)"

text \<open>
  The package function \<^verbatim>\<open>Get\<close>:
  \<^verbatim>\<open>
  func Get(err error, key interface{}) (interface{}, bool) {
      if err == nil { return nil, false }
      if err, ok := err.(hasProps); ok {
          if val, ok := err.Get(key); ok { return val, true }
      }
      if err, ok := err.(hasCause); ok { return Get(err.Cause(), key) }
      return nil, false
  }
  \<close>
  A panic of the node's own \<^verbatim>\<open>Get\<close> leaves \<^verbatim>\<open>Get\<close> at once.
\<close>

function Get :: "error \<Rightarrow> gval \<Rightarrow> (gval \<times> bool) result" where
  "Get err key =
     (case err of
        nil_error \<Rightarrow> Inr (VNil, False)
      | _ \<Rightarrow>
         (case hasProps err key of
            Some (Inl x) \<Rightarrow> Inl x
          | Some (Inr (val, True)) \<Rightarrow> Inr (val, True)
          | _ \<Rightarrow>
             (case hasCause err of
                Some c \<Rightarrow> Get c key
              | None \<Rightarrow> Inr (VNil, False))))"
  by pat_completeness auto
termination
proof -
  have smaller: "\<forall>c. hasCause err = Some c \<longrightarrow> size c < size err"
    and smaller_Cause: "size (Cause p) < size p" for err :: error and p :: PropError
    by (induction err and p) (auto split: option.splits)
  have "hasCause err = Some c \<Longrightarrow> size c < size err" for err c
    using smaller by blast
  then show ?thesis
    by (relation "measure (\<lambda>(err, key). size err)") (auto simp: smaller_Cause less_SucI)
qed

declare Get.simps [simp del]

text \<open>
  \<^verbatim>\<open>
  func GetOptional(err error, key interface{}) interface{} {
      if val, ok := Get(err, key); ok { return val }
      return nil
  }
  \<close>
\<close>

definition GetOptional :: "error \<Rightarrow> gval \<Rightarrow> gval result" where
  "GetOptional err key =
     (case Get err key of
        Inl x \<Rightarrow> Inl x
      | Inr (val, True) \<Rightarrow> Inr val
      | Inr (val, False) \<Rightarrow> Inr VNil)"

section \<open>Formatting\<close>

text \<open>
  \<^verbatim>\<open>fmt\<close> belongs to the Go standard library, not to the package. What the package
  needs from it is a parameter of the model: a \<open>printer\<close> gives the text that
  \<^verbatim>\<open>fmt.Fprintf\<close> writes for one directive (such as \<^verbatim>\<open>%+v\<close>) and one operand.
  \<open>Flag\<close> reads a flag of the state as \<^verbatim>\<open>fmt.State.Flag\<close> does, and \<open>Fprint\<close> is
  \<^verbatim>\<open>fmt.Fprint(f, s)\<close> for a string \<open>s\<close>: it appends \<open>s\<close> to the output.
\<close>

type_synonym printer = "string \<Rightarrow> gval \<Rightarrow> string"

definition Flag :: "fmt_State \<Rightarrow> char \<Rightarrow> bool" where
  "Flag f b =
     (if b = CHR ''+'' then plus (flags f)
      else if b = CHR ''#'' then sharp (flags f)
      else if b = CHR ''-'' then minus (flags f)
      else if b = CHR '' '' then space (flags f)
      else if b = CHR ''0'' then zero (flags f)
      else False)"

definition Fprint :: "fmt_State \<Rightarrow> string \<Rightarrow> fmt_State" where
  "Fprint f s = f\<lparr>buf := buf f @ s\<rparr>"

text \<open>
  \<^verbatim>\<open>fmt.Fprintf(f, format+"="+format, key, value)\<close>, where \<open>format\<close> is one directive:
  the first directive takes \<open>key\<close>, the second takes \<open>val\<close>.
\<close>

definition Fprintf_pair :: "printer \<Rightarrow> fmt_State \<Rightarrow> string \<Rightarrow> gval \<Rightarrow> gval \<Rightarrow> fmt_State" where
  "Fprintf_pair pr f format key val = Fprint f (pr format key @ ''='' @ pr format val)"

text \<open>
  The local variable \<open>format\<close> of \<^verbatim>\<open>formatInner\<close>:
  \<^verbatim>\<open>
  format := "%"
  if f.Flag('+') { format += "+" } else if f.Flag('#') { format += "#" }
  format = string(append([]rune(format), c))
  \<close>
\<close>

definition kv_format :: "fmt_State \<Rightarrow> char \<Rightarrow> string" where
  "kv_format f c =
     (let format = ''%'';
          format = (if Flag f (CHR ''+'') then format @ ''+''
                    else if Flag f (CHR ''#'') then format @ ''#''
                    else format)
      in format @ [c])"

text \<open>
  \<^verbatim>\<open>
  func (e *keyValueError) formatInner(f fmt.State, c rune) {
      ... format ...
      fmt.Fprintf(f, format+"="+format, e.key, e.value)
      if e, ok := e.PropError.(*keyValueError); ok {
          fmt.Fprint(f, ",")
          e.formatInner(f, c)
      }
  }
  \<close>
  The receiver \<^verbatim>\<open>&keyValueError{p, k, v}\<close> is given by its three fields.
\<close>

fun formatInner :: "printer \<Rightarrow> PropError \<Rightarrow> gval \<Rightarrow> gval \<Rightarrow> fmt_State \<Rightarrow> char \<Rightarrow> fmt_State" where
  "formatInner pr p k v f c =
     (let f1 = Fprintf_pair pr f (kv_format f c) k v
      in case p of
           keyValueError p' k' v' \<Rightarrow> formatInner pr p' k' v' (Fprint f1 '','') c
         | baseError err \<Rightarrow> f1)"

declare formatInner.simps [simp del]

text \<open>
  \<^verbatim>\<open>
  func (e baseError) Format(f fmt.State, c rune) { e.formatBaseError(f, c) }
  func (e baseError) formatBaseError(f fmt.State, c rune) {
      if e, ok := e.error.(fmt.Formatter); ok { e.Format(f, c); return }
      fmt.Fprint(f, e.error)
  }
  func (e *keyValueError) formatBaseError(f fmt.State, c rune) {
      e.PropError.formatBaseError(f, c)
  }
  func (e *keyValueError) Format(f fmt.State, c rune) {
      fmt.Fprint(f, "[")
      e.formatInner(f, c)
      fmt.Fprint(f, "] ")
      e.formatBaseError(f, c)
  }
  \<close>
  A \<^verbatim>\<open>PropError\<close> is a \<^verbatim>\<open>fmt.Formatter\<close>; a foreign error is one when it has a
  \<open>formatter\<close>, which receives the flags of \<open>f\<close> and the verb. \<^verbatim>\<open>fmt.Fprint\<close> of an error
  that is no \<^verbatim>\<open>fmt.Formatter\<close> writes its \<^verbatim>\<open>Error()\<close>, and \<^verbatim>\<open><nil>\<close> for the nil
  interface.
\<close>

fun Format :: "printer \<Rightarrow> PropError \<Rightarrow> fmt_State \<Rightarrow> char \<Rightarrow> fmt_State"
and formatBaseError :: "printer \<Rightarrow> PropError \<Rightarrow> fmt_State \<Rightarrow> char \<Rightarrow> fmt_State" where
  "Format pr (baseError err) f c = formatBaseError pr (baseError err) f c"
| "Format pr (keyValueError p k v) f c =
     (let f1 = Fprint f ''['';
          f2 = formatInner pr p k v f1 c;
          f3 = Fprint f2 ''] ''
      in formatBaseError pr (keyValueError p k v) f3 c)"
| "formatBaseError pr (baseError err) f c =
     (case err of
        nil_error \<Rightarrow> Fprint f ''<nil>''
      | Opaque fo \<Rightarrow>
          (case formatter fo of
             Some fm \<Rightarrow> Fprint f (fm (flags f) c)
           | None \<Rightarrow> Fprint f (message fo))
      | Wrapper fo x \<Rightarrow>
          (case formatter fo of
             Some fm \<Rightarrow> Fprint f (fm (flags f) c)
           | None \<Rightarrow> Fprint f (message fo))
      | Prop p \<Rightarrow> Format pr p f c)"
| "formatBaseError pr (keyValueError p k v) f c = formatBaseError pr p f c"

text \<open>\<^verbatim>\<open>fmt.Sprintf\<close> of one \<^verbatim>\<open>PropError\<close> under the flags \<open>fl\<close> and the verb \<open>c\<close>.\<close>

definition Sprintf :: "printer \<Rightarrow> fmt_flags \<Rightarrow> char \<Rightarrow> PropError \<Rightarrow> string" where
  "Sprintf pr fl c p = buf (Format pr p \<lparr>flags = fl, buf = []\<rparr> c)"

section \<open>\<^verbatim>\<open>WithValue\<close> in a store\<close>

text \<open>
  \<^verbatim>\<open>WithValue\<close> returns \<^verbatim>\<open>&keyValueError{e, key, value}\<close>: a pointer to a newly
  allocated struct. To state that no existing node is written, the nodes live in a store:
  a list of structs, the address of a struct being its index, and allocation appending a
  struct. A \<^verbatim>\<open>PropError\<close> interface value is then a \<^verbatim>\<open>baseError\<close> struct value or a
  pointer to a \<^verbatim>\<open>keyValueError\<close>.
\<close>

type_synonym addr = nat

datatype PropError_val = baseError_val error | keyValueError_ptr addr

record keyValueError_struct =
  PropError_field :: PropError_val
  key_field :: gval
  value_field :: gval

type_synonym store = "keyValueError_struct list"

definition WithValue_store :: "store \<Rightarrow> PropError_val \<Rightarrow> gval \<Rightarrow> gval \<Rightarrow> PropError_val \<times> store" where
  "WithValue_store h e key val =
     (keyValueError_ptr (length h),
      h @ [\<lparr>PropError_field = e, key_field = key, value_field = val\<rparr>])"

text \<open>
  \<open>load h r\<close> reads the decoration chain that \<open>r\<close> points to out of the store, as a
  value of \<open>PropError\<close>; \<open>None\<close> when a pointer leaves the store or does not point to an
  older struct. (A struct is written once, at its allocation, so its embedded pointer is
  older than itself.)
\<close>

fun older :: "PropError_val \<Rightarrow> addr \<Rightarrow> bool" where
  "older (baseError_val err) a = True"
| "older (keyValueError_ptr a') a = (a' < a)"

function load :: "store \<Rightarrow> PropError_val \<Rightarrow> PropError option" where
  "load h (baseError_val err) = Some (baseError err)"
| "load h (keyValueError_ptr a) =
     (if a < length h \<and> older (PropError_field (h ! a)) a
      then map_option (\<lambda>p. keyValueError p (key_field (h ! a)) (value_field (h ! a)))
             (load h (PropError_field (h ! a)))
      else None)"
  by pat_completeness auto
termination
  by (relation "measure (\<lambda>(h, r). case r of baseError_val err \<Rightarrow> 0 | keyValueError_ptr a \<Rightarrow> Suc a)")
    (auto split: PropError_val.splits)

text \<open>The package function \<^verbatim>\<open>Get\<close> on a \<^verbatim>\<open>PropError\<close> held in the store.\<close>

definition Get_store :: "store \<Rightarrow> PropError_val \<Rightarrow> gval \<Rightarrow> (gval \<times> bool) result option" where
  "Get_store h r key = map_option (\<lambda>p. Get (Prop p) key) (load h r)"

section \<open>Notions of the specification\<close>

text \<open>
  The key/value pairs of a decoration chain, newest first, down to the first
  \<^verbatim>\<open>baseError\<close>, and the error that this \<^verbatim>\<open>baseError\<close> wraps.
\<close>

fun chain_pairs :: "PropError \<Rightarrow> (gval \<times> gval) list" where
  "chain_pairs (baseError err) = []"
| "chain_pairs (keyValueError p k v) = (k, v) # chain_pairs p"

fun chain_base :: "PropError \<Rightarrow> error" where
  "chain_base (baseError err) = err"
| "chain_base (keyValueError p k v) = chain_base p"

text \<open>Texts joined with commas.\<close>

fun commas :: "string list \<Rightarrow> string" where
  "commas [] = []"
| "commas [s] = s"
| "commas (s # t # ss) = s @ '','' @ commas (t # ss)"

text \<open>A sequence of \<^verbatim>\<open>WithValue\<close> calls, the first pair of the list applied first.\<close>

definition WithValues :: "PropError \<Rightarrow> (gval \<times> gval) list \<Rightarrow> PropError" where
  "WithValues p kvs = foldl (\<lambda>q (k, v). WithValue q k v) p kvs"


text \<open>
  \<open>recause c' err\<close> is \<open>err\<close> with another cause: every foreign error that implements
  \<^verbatim>\<open>hasCause\<close> and is reached through decoration alone reports \<open>c'\<close>.
\<close>

fun recause :: "error \<Rightarrow> error \<Rightarrow> error"
and PropError_recause :: "error \<Rightarrow> PropError \<Rightarrow> PropError" where
  "recause c' nil_error = nil_error"
| "recause c' (Opaque fo) = Opaque fo"
| "recause c' (Wrapper fo c) = Wrapper fo c'"
| "recause c' (Prop p) = Prop (PropError_recause c' p)"
| "PropError_recause c' (baseError err) = baseError (recause c' err)"
| "PropError_recause c' (keyValueError p k v) = keyValueError (PropError_recause c' p) k v"

text \<open>The text of one pair under the directive \<open>format\<close>: key, \<open>=\<close>, value.\<close>

definition pair_text :: "printer \<Rightarrow> string \<Rightarrow> gval \<times> gval \<Rightarrow> string" where
  "pair_text pr format kv = pr format (fst kv) @ ''='' @ pr format (snd kv)"

text \<open>No flag set, no width, no precision: the state of a plain \<^verbatim>\<open>%v\<close>.\<close>

definition no_flags :: fmt_flags where
  "no_flags = \<lparr>plus = False, sharp = False, minus = False, space = False, zero = False,
     wid = None, prec = None\<rparr>"

text \<open>
  An example of a printer, for the concrete renderings below. It follows \<^verbatim>\<open>fmt\<close> on
  integers and on strings without special characters under the verb \<^verbatim>\<open>v\<close>: an integer
  in decimal, a string as it is, and in double quotes when the directive has the flag
  \<^verbatim>\<open>#\<close> (as in the outputs of \<^verbatim>\<open>Example_format\<close> and \<^verbatim>\<open>TestFormatWithProps\<close>).
\<close>

definition digit :: "nat \<Rightarrow> char" where
  "digit n = ''0123456789'' ! n"

function decimal :: "nat \<Rightarrow> string" where
  "decimal n = (if n < 10 then [digit n] else decimal (n div 10) @ [digit (n mod 10)])"
  by pat_completeness auto
termination
  by (relation "measure id") auto

declare decimal.simps [simp del]

definition example_printer :: printer where
  "example_printer format x =
     (case x of
        VStr s \<Rightarrow> (if CHR ''#'' \<in> set format then [CHR 0x22] @ s @ [CHR 0x22] else s)
      | VInt i \<Rightarrow> (if i < 0 then ''-'' @ decimal (nat (- i)) else decimal (nat i))
      | VBool b \<Rightarrow> (if b then ''true'' else ''false'')
      | _ \<Rightarrow> ''?'')"




section \<open>Basic facts\<close>

lemma Get_nil_error: "Get nil_error key = Inr (VNil, False)"
  by (simp add: Get.simps)

lemma Get_not_nil:
  "err \<noteq> nil_error \<Longrightarrow>
   Get err key =
     (case hasProps err key of
        Some (Inl x) \<Rightarrow> Inl x
      | Some (Inr (val, True)) \<Rightarrow> Inr (val, True)
      | _ \<Rightarrow> (case hasCause err of Some c \<Rightarrow> Get c key | None \<Rightarrow> Inr (VNil, False)))"
  by (subst Get.simps) (simp split: error.splits)

lemma WithValue_eq: "WithValue p k v = keyValueError p k v"
  by (cases p) simp_all

lemma WithValues_snoc: "WithValues p (kvs @ [(k, v)]) = keyValueError (WithValues p kvs) k v"
  by (simp add: WithValues_def WithValue_eq)

lemma WithValues_Nil: "WithValues p [] = p"
  by (simp add: WithValues_def)

lemma Get_own:
  "go_eq key k = Inr True \<Longrightarrow> Get (Prop (keyValueError p k v)) key = Inr (v, True)"
  by (simp add: Get_not_nil)

lemma chain_pairs_WithValues: "chain_pairs (WithValues p kvs) = rev kvs @ chain_pairs p"
  by (induction kvs rule: rev_induct) (auto simp: WithValues_snoc WithValues_Nil)


lemma Get_WithValues_other:
  "go_eq k k = Inr True \<Longrightarrow> list_all (\<lambda>kv. go_eq k (fst kv) = Inr False) kvs \<Longrightarrow>
   PropError_Get (WithValues (WithValue p k v) kvs) k = Inr (v, True)"
  by (induction kvs rule: rev_induct) (auto simp: WithValues_snoc WithValues_Nil WithValue_eq)

lemma hasProps_found_Get:
  "PropError_Get p k = Inr (v, True) \<Longrightarrow> Get (Prop p) k = Inr (v, True)"
  by (simp add: Get_not_nil)

section \<open>The lookup algorithm\<close>

text \<open>
  C1. For every error \<open>err\<close> and every key, \<^verbatim>\<open>Get(err, key)\<close> follows these steps: on
  the nil error it returns \<^verbatim>\<open>(nil, false)\<close>; else, if \<open>err\<close> implements \<^verbatim>\<open>hasProps\<close>
  and its own \<^verbatim>\<open>Get(key)\<close> reports found, it returns that value with \<^verbatim>\<open>true\<close>; else,
  if \<open>err\<close> implements \<^verbatim>\<open>hasCause\<close>, it returns \<^verbatim>\<open>Get(err.Cause(), key)\<close>; otherwise
  it returns \<^verbatim>\<open>(nil, false)\<close>. (The last conjunct adds what the steps leave unsaid: a
  panic of the node's own \<^verbatim>\<open>Get\<close> is the outcome of \<^verbatim>\<open>Get\<close>.)
\<close>

theorem Get_steps:
  "Get nil_error key = Inr (VNil, False) \<and>
   (\<forall>err val. err \<noteq> nil_error \<and> hasProps err key = Some (Inr (val, True)) \<longrightarrow>
      Get err key = Inr (val, True)) \<and>
   (\<forall>err c. err \<noteq> nil_error \<and>
        (hasProps err key = None \<or> (\<exists>val. hasProps err key = Some (Inr (val, False)))) \<and>
        hasCause err = Some c \<longrightarrow>
      Get err key = Get c key) \<and>
   (\<forall>err. err \<noteq> nil_error \<and>
        (hasProps err key = None \<or> (\<exists>val. hasProps err key = Some (Inr (val, False)))) \<and>
        hasCause err = None \<longrightarrow>
      Get err key = Inr (VNil, False)) \<and>
   (\<forall>err x. err \<noteq> nil_error \<and> hasProps err key = Some (Inl x) \<longrightarrow> Get err key = Inl x)"
proof (intro conjI allI impI)
  show "Get nil_error key = Inr (VNil, False)"
    by (rule Get_nil_error)
next
  fix err val
  assume "err \<noteq> nil_error \<and> hasProps err key = Some (Inr (val, True))"
  then show "Get err key = Inr (val, True)"
    by (simp add: Get_not_nil)
next
  fix err c
  assume "err \<noteq> nil_error \<and>
        (hasProps err key = None \<or> (\<exists>val. hasProps err key = Some (Inr (val, False)))) \<and>
        hasCause err = Some c"
  then show "Get err key = Get c key"
    by (auto simp: Get_not_nil)
next
  fix err
  assume "err \<noteq> nil_error \<and>
        (hasProps err key = None \<or> (\<exists>val. hasProps err key = Some (Inr (val, False)))) \<and>
        hasCause err = None"
  then show "Get err key = Inr (VNil, False)"
    by (auto simp: Get_not_nil)
next
  fix err x
  assume "err \<noteq> nil_error \<and> hasProps err key = Some (Inl x)"
  then show "Get err key = Inl x"
    by (simp add: Get_not_nil)
qed

text \<open>
  The steps at work, as in \<^verbatim>\<open>Example_cause\<close> of the tests: the outer error does not
  hold \<^verbatim>\<open>rootKey\<close>, its cause does.
\<close>

theorem Get_steps_witness:
  "Get (Prop (WithValue (From (Wrapper \<lparr>message = ''wrapped'', stack = None, props = None, formatter = None\<rparr>
          (Prop (WithValue (From (Opaque \<lparr>message = ''root cause'', stack = None, props = None, formatter = None\<rparr>))
             (VStr ''rootKey'') (VStr ''rootValue'')))))
        (VStr ''wrappedKey'') (VStr ''wrappedValue'')))
     (VStr ''rootKey'') = Inr (VStr ''rootValue'', True)"
proof -
  let ?root = "Opaque \<lparr>message = ''root cause'', stack = None, props = None, formatter = None\<rparr>"
  let ?inner = "Prop (WithValue (From ?root) (VStr ''rootKey'') (VStr ''rootValue''))"
  let ?outer = "Prop (WithValue (From (Wrapper \<lparr>message = ''wrapped'', stack = None, props = None, formatter = None\<rparr> ?inner))
        (VStr ''wrappedKey'') (VStr ''wrappedValue''))"
  have found: "\<And>err val. err \<noteq> nil_error \<and> hasProps err (VStr ''rootKey'') = Some (Inr (val, True)) \<Longrightarrow>
      Get err (VStr ''rootKey'') = Inr (val, True)"
    and walk: "\<And>err c. err \<noteq> nil_error \<and>
        (hasProps err (VStr ''rootKey'') = None \<or> (\<exists>val. hasProps err (VStr ''rootKey'') = Some (Inr (val, False)))) \<and>
        hasCause err = Some c \<Longrightarrow>
      Get err (VStr ''rootKey'') = Get c (VStr ''rootKey'')"
    using Get_steps [of "VStr ''rootKey''"] by blast+
  have "Get ?outer (VStr ''rootKey'') = Get ?inner (VStr ''rootKey'')"
    by (rule walk) (simp add: From_def)
  also have "\<dots> = Inr (VStr ''rootValue'', True)"
    by (rule found) (simp add: From_def)
  finally show ?thesis .
qed

text \<open>
  C10. \<^verbatim>\<open>From\<close> accepts the nil error, and for every key \<open>k\<close>,
  \<^verbatim>\<open>Get(From(nil), k)\<close> returns \<^verbatim>\<open>(nil, false)\<close> without a panic: the type assertions
  of the \<^verbatim>\<open>baseError\<close> on its nil wrapped error all fail, its \<^verbatim>\<open>Cause()\<close> returns nil,
  and the lookup ends at the nil error.
\<close>

theorem From_nil_Get:
  "Get (Prop (From nil_error)) k = Inr (VNil, False) \<and>
   PropError_Get (From nil_error) k = Inr (VNil, False) \<and>
   hasProps nil_error k = None \<and>
   hasCause nil_error = None \<and>
   hasStacktrace nil_error = None \<and>
   Cause (From nil_error) = nil_error \<and>
   Stacktrace (From nil_error) = None \<and>
   hasCause (Prop (From nil_error)) = Some nil_error \<and>
   Get nil_error k = Inr (VNil, False)"
  by (simp add: From_def Get_not_nil Get_nil_error)

section \<open>The error message\<close>

lemma PropError_Error_WithValues: "PropError_Error (WithValues p kvs) = PropError_Error p"
  by (induction kvs rule: rev_induct) (auto simp: WithValues_snoc WithValues_Nil)

text \<open>
  C6. For every underlying error \<open>e\<close> and any sequence of \<^verbatim>\<open>WithValue\<close> calls, the
  \<^verbatim>\<open>Error()\<close> of the decorated error is that of \<open>e\<close>: neither the \<^verbatim>\<open>baseError\<close> nor a
  \<^verbatim>\<open>keyValueError\<close> alters the message, and no key or value appears in it. (For the nil
  error both sides are the same panic; for a foreign error both are its message.)
\<close>

theorem Error_preserved:
  "PropError_Error (From e) = Error e \<and>
   PropError_Error (WithValues (From e) kvs) = Error e \<and>
   Error (Prop (WithValues (From e) kvs)) = Error e \<and>
   Error (Prop (WithValues (From (Opaque fo)) kvs)) = Inr (message fo) \<and>
   Error (Prop (WithValues (From (Wrapper fo c)) kvs)) = Inr (message fo)"
  by (simp add: PropError_Error_WithValues From_def)

section \<open>The node's own \<^verbatim>\<open>Get\<close>\<close>

lemma hasProps_recause:
  fixes err :: error and p :: PropError
  shows "hasProps (recause c' err) key = hasProps err key"
    and "PropError_Get (PropError_recause c' p) key = PropError_Get p key"
  by (induction err and p) (auto split: sum.splits bool.splits)

text \<open>
  C3 (as the code has it). \<^verbatim>\<open>Get(key)\<close> on a \<^verbatim>\<open>keyValueError\<close> returns the node's own
  pair when \<open>key\<close> equals its key, and otherwise the result of \<^verbatim>\<open>Get(key)\<close> on its
  predecessor. \<^verbatim>\<open>Get(key)\<close> on a \<^verbatim>\<open>baseError\<close> returns \<^verbatim>\<open>(nil, false)\<close> when the wrapped
  error does not implement \<^verbatim>\<open>hasProps\<close>, and the wrapped error's own \<^verbatim>\<open>Get(key)\<close> when
  it does. What a node's \<^verbatim>\<open>Get\<close> never consults is the cause: the result is the same
  whatever the cause is.
\<close>

theorem node_Get:
  "(\<forall>p k v key. go_eq key k = Inr True \<longrightarrow> PropError_Get (keyValueError p k v) key = Inr (v, True)) \<and>
   (\<forall>p k v key. go_eq key k = Inr False \<longrightarrow>
      PropError_Get (keyValueError p k v) key = PropError_Get p key) \<and>
   (\<forall>err key. hasProps err key = None \<longrightarrow> PropError_Get (baseError err) key = Inr (VNil, False)) \<and>
   (\<forall>err key r. hasProps err key = Some r \<longrightarrow> PropError_Get (baseError err) key = r) \<and>
   (\<forall>p key c'. PropError_Get (PropError_recause c' p) key = PropError_Get p key)"
  by (simp add: hasProps_recause)

text \<open>The data of \<^verbatim>\<open>TestWithValue\<close>: the newest node answers for an older key.\<close>

theorem node_Get_witness:
  "PropError_Get
     (WithValue (WithValue (From (Opaque \<lparr>message = ''hello'', stack = None, props = None, formatter = None\<rparr>))
        (VStr ''foo'') (VStr ''baz'')) (VStr ''key'') (VStr ''value''))
     (VStr ''foo'') = Inr (VStr ''baz'', True) \<and>
   PropError_Get (From (Opaque \<lparr>message = ''hello'', stack = None, props = None, formatter = None\<rparr>))
     (VStr ''foo'') = Inr (VNil, False) \<and>
   PropError_Get
     (From (Prop (WithValue (From nil_error) (VStr ''foo'') (VStr ''baz''))))
     (VStr ''foo'') = Inr (VStr ''baz'', True)"
proof -
  let ?hello = "Opaque \<lparr>message = ''hello'', stack = None, props = None, formatter = None\<rparr>"
  let ?inner = "keyValueError (baseError ?hello) (VStr ''foo'') (VStr ''baz'')"
  have own: "\<And>p k v key. go_eq key k = Inr True \<Longrightarrow> PropError_Get (keyValueError p k v) key = Inr (v, True)"
    and pred: "\<And>p k v key. go_eq key k = Inr False \<Longrightarrow>
      PropError_Get (keyValueError p k v) key = PropError_Get p key"
    and none: "\<And>err key. hasProps err key = None \<Longrightarrow> PropError_Get (baseError err) key = Inr (VNil, False)"
    and some: "\<And>err key r. hasProps err key = Some r \<Longrightarrow> PropError_Get (baseError err) key = r"
    using node_Get by blast+
  have "PropError_Get (keyValueError ?inner (VStr ''key'') (VStr ''value'')) (VStr ''foo'')
      = PropError_Get ?inner (VStr ''foo'')"
    by (rule pred) simp
  also have "\<dots> = Inr (VStr ''baz'', True)"
    by (rule own) simp
  finally have a: "PropError_Get (keyValueError ?inner (VStr ''key'') (VStr ''value'')) (VStr ''foo'')
      = Inr (VStr ''baz'', True)" .
  have b: "PropError_Get (baseError ?hello) (VStr ''foo'') = Inr (VNil, False)"
    by (rule none) simp
  have "hasProps (Prop (keyValueError (baseError nil_error) (VStr ''foo'') (VStr ''baz''))) (VStr ''foo'')
      = Some (Inr (VStr ''baz'', True))"
    by simp
  from some [OF this] a b show ?thesis
    by (simp add: From_def WithValue_eq)
qed

text \<open>
  C3 as stated fails: a node's \<^verbatim>\<open>Get\<close> returns the pair of its predecessor, and the
  \<^verbatim>\<open>Get\<close> of a \<^verbatim>\<open>baseError\<close> that wraps a decorated error finds that error's pair.
\<close>

theorem node_Get_counterexample:
  "PropError_Get
     (keyValueError (keyValueError (baseError nil_error) (VStr ''foo'') (VStr ''bar''))
        (VStr ''key'') (VStr ''value''))
     (VStr ''foo'') = Inr (VStr ''bar'', True) \<and>
   PropError_Get
     (baseError (Prop (keyValueError (baseError nil_error) (VStr ''foo'') (VStr ''bar''))))
     (VStr ''foo'') = Inr (VStr ''bar'', True)"
  by simp

section \<open>Round trip and shadowing\<close>

text \<open>
  C4 (as the code has it). For every error \<open>y\<close>, every value \<open>v\<close> and every key \<open>k\<close>
  that \<^verbatim>\<open>==\<close> finds equal to itself, \<^verbatim>\<open>Get(x, k)\<close> right after
  \<^verbatim>\<open>x = y.WithValue(k, v)\<close> yields \<^verbatim>\<open>(v, true)\<close>, whatever \<open>y\<close> holds.
\<close>

theorem WithValue_Get:
  "go_eq k k = Inr True \<Longrightarrow>
   Get (Prop (WithValue y k v)) k = Inr (v, True) \<and>
   PropError_Get (WithValue y k v) k = Inr (v, True) \<and>
   GetOptional (Prop (WithValue y k v)) k = Inr v"
  by (simp add: WithValue_eq Get_not_nil GetOptional_def)

theorem WithValue_Get_witness:
  "Get (Prop (WithValue (WithValue (From (Opaque \<lparr>message = ''root'', stack = None, props = None, formatter = None\<rparr>))
       (VStr ''id'') (VInt 7)) (VStr ''id'') (VInt 42))) (VStr ''id'') = Inr (VInt 42, True)"
  using WithValue_Get [of "VStr ''id''" _ "VInt 42"] by simp

text \<open>
  C4 as stated fails for a key that is not equal to itself: with the \<^verbatim>\<open>float64\<close> NaN as
  key, \<^verbatim>\<open>key == e.key\<close> is false and the pair just set is not found.
\<close>

theorem WithValue_Get_counterexample:
  "Get (Prop (WithValue (From (Opaque \<lparr>message = ''root'', stack = None, props = None, formatter = None\<rparr>))
       (VFloat NaN) (VInt 42))) (VFloat NaN) = Inr (VNil, False)"
  by (simp add: From_def Get_not_nil Get_nil_error)

text \<open>
  C2 (as the code has it). For a key \<open>k\<close> that \<^verbatim>\<open>==\<close> finds equal to itself: a later
  \<^verbatim>\<open>WithValue\<close> with the key \<open>k\<close> leaves the old pair in the chain, and \<^verbatim>\<open>Get\<close>
  returns the newer value; the pair added last for \<open>k\<close> wins within one decoration chain,
  whatever was added in between, and whatever was added after it under keys that differ
  from \<open>k\<close>; and when \<open>k = v1\<close> is set on an inner error and \<open>k = v2\<close> on an outer
  error that has the inner one as its cause, \<^verbatim>\<open>Get\<close> on the outer error returns \<open>v2\<close>
  and \<^verbatim>\<open>Get\<close> on the inner error returns \<open>v1\<close>.
\<close>

theorem shadowing:
  "go_eq k k = Inr True \<Longrightarrow>
   chain_pairs (WithValue (WithValue p k v1) k v2) = (k, v2) # (k, v1) # chain_pairs p \<and>
   Get (Prop (WithValue (WithValue p k v1) k v2)) k = Inr (v2, True) \<and>
   Get (Prop (WithValue p k v1)) k = Inr (v1, True) \<and>
   Get (Prop (WithValue (WithValues (WithValue p k v1) kvs) k v2)) k = Inr (v2, True) \<and>
   (list_all (\<lambda>kv. go_eq k (fst kv) = Inr False) kvs \<longrightarrow>
      Get (Prop (WithValues (WithValue (WithValue p k v1) k v2) kvs)) k = Inr (v2, True)) \<and>
   hasCause (Prop (WithValue (From (Wrapper fo (Prop (WithValue (From e) k v1)))) k v2))
     = Some (Prop (WithValue (From e) k v1)) \<and>
   Get (Prop (WithValue (From (Wrapper fo (Prop (WithValue (From e) k v1)))) k v2)) k = Inr (v2, True) \<and>
   Get (Prop (WithValue (From e) k v1)) k = Inr (v1, True)"
  by (simp add: WithValue_eq Get_own From_def)
    (simp add: hasProps_found_Get Get_WithValues_other [unfolded WithValue_eq])

text \<open>The data of \<^verbatim>\<open>Example_overriding\<close> and of \<^verbatim>\<open>TestWithValue\<close>.\<close>

theorem shadowing_witness:
  "Get (Prop (WithValue (From (Wrapper \<lparr>message = ''wrapped'', stack = None, props = None, formatter = None\<rparr>
          (Prop (WithValue (From (Opaque \<lparr>message = ''root cause'', stack = None, props = None, formatter = None\<rparr>))
             (VStr ''key'') (VStr ''rootValue'')))))
        (VStr ''key'') (VStr ''wrappedValue''))) (VStr ''key'') = Inr (VStr ''wrappedValue'', True) \<and>
   Get (Prop (WithValue (From (Opaque \<lparr>message = ''root cause'', stack = None, props = None, formatter = None\<rparr>))
             (VStr ''key'') (VStr ''rootValue''))) (VStr ''key'') = Inr (VStr ''rootValue'', True) \<and>
   Get (Prop (WithValues
          (WithValue (WithValue (From (Opaque \<lparr>message = ''hello'', stack = None, props = None, formatter = None\<rparr>))
             (VStr ''foo'') (VStr ''bar'')) (VStr ''foo'') (VStr ''baz''))
          [(VStr ''key'', VStr ''value'')])) (VStr ''foo'') = Inr (VStr ''baz'', True)"
proof -
  have self: "go_eq (VStr ''key'') (VStr ''key'') = Inr True"
    and foo: "go_eq (VStr ''foo'') (VStr ''foo'') = Inr True"
    and other: "list_all (\<lambda>kv. go_eq (VStr ''foo'') (fst kv) = Inr False) [(VStr ''key'', VStr ''value'')]"
    by simp_all
  from shadowing [OF self] shadowing [OF foo, of _ _ _ "[(VStr ''key'', VStr ''value'')]"] other
  show ?thesis
    by blast
qed

text \<open>
  C2 as stated fails for the key NaN: neither the outer nor the inner pair is found, so
  \<^verbatim>\<open>Get\<close> on the outer error does not return the newer value.
\<close>

theorem shadowing_counterexample:
  "Get (Prop (WithValue (From (Wrapper \<lparr>message = ''wrapped'', stack = None, props = None, formatter = None\<rparr>
          (Prop (WithValue (From (Opaque \<lparr>message = ''root cause'', stack = None, props = None, formatter = None\<rparr>))
             (VFloat NaN) (VStr ''rootValue'')))))
        (VFloat NaN) (VStr ''wrappedValue''))) (VFloat NaN) = Inr (VNil, False)"
  by (simp add: From_def Get_not_nil Get_nil_error)

section \<open>\<^verbatim>\<open>WithValue\<close> writes no existing node\<close>

lemma load_append: "load h r = Some p \<Longrightarrow> load (h @ [n]) r = Some p"
proof (induction h r arbitrary: p rule: load.induct)
  case (1 h err)
  then show ?case by simp
next
  case (2 h a)
  from "2.prems" have ok: "a < length h \<and> older (PropError_field (h ! a)) a"
    by (simp split: if_splits)
  with "2.prems" obtain q where q: "load h (PropError_field (h ! a)) = Some q"
    and p: "p = keyValueError q (key_field (h ! a)) (value_field (h ! a))"
    by auto
  from "2.IH" [OF ok q] have "load (h @ [n]) (PropError_field (h ! a)) = Some q" .
  with ok p show ?case
    by (simp add: nth_append)
qed

lemma load_WithValue_store:
  "load h x = Some p \<Longrightarrow>
   load (snd (WithValue_store h x key val)) (fst (WithValue_store h x key val)) = Some (WithValue p key val)"
proof -
  assume x: "load h x = Some p"
  have old: "older x (length h)"
  proof (cases x)
    case (baseError_val err)
    then show ?thesis by simp
  next
    case (keyValueError_ptr a)
    with x show ?thesis by (simp split: if_splits)
  qed
  from load_append [OF x] old show ?thesis
    by (simp add: WithValue_store_def WithValue_eq)
qed

text \<open>
  C5 (as the code has it). \<^verbatim>\<open>WithValue\<close> allocates a new node and writes no existing
  one: the store before the call is a prefix of the store after it, every chain that
  could be read before reads the same after, and the new pointer reads as the receiver's
  chain with the new pair on top. So after \<^verbatim>\<open>a := From(e).WithValue(k, v1)\<close> and
  \<^verbatim>\<open>b := a.WithValue(k, v2)\<close>, \<open>a\<close> is the chain it was, and for a key \<open>k\<close> that \<^verbatim>\<open>==\<close>
  finds equal to itself, querying \<open>a\<close> for \<open>k\<close> still yields \<open>v1\<close> (and \<open>b\<close> yields \<open>v2\<close>).
\<close>

theorem WithValue_non_destructive:
  "go_eq k k = Inr True \<Longrightarrow>
   (case WithValue_store h0 (baseError_val e) k v1 of (a, h1) \<Rightarrow>
    case WithValue_store h1 a k v2 of (b, h2) \<Rightarrow>
      take (length h1) h2 = h1 \<and> b \<noteq> a \<and>
      load h1 a = Some (WithValue (From e) k v1) \<and>
      load h2 a = Some (WithValue (From e) k v1) \<and>
      load h2 b = Some (WithValue (WithValue (From e) k v1) k v2) \<and>
      Get_store h1 a k = Some (Inr (v1, True)) \<and>
      Get_store h2 a k = Some (Inr (v1, True)) \<and>
      Get_store h2 b k = Some (Inr (v2, True))) \<and>
   (\<forall>h x key val r p. load h r = Some p \<longrightarrow> load (snd (WithValue_store h x key val)) r = Some p) \<and>
   (\<forall>h x key val. take (length h) (snd (WithValue_store h x key val)) = h) \<and>
   (\<forall>h x key val p. load h x = Some p \<longrightarrow>
      load (snd (WithValue_store h x key val)) (fst (WithValue_store h x key val))
        = Some (WithValue p key val))"
proof (intro conjI allI impI)
  assume k: "go_eq k k = Inr True"
  show "case WithValue_store h0 (baseError_val e) k v1 of (a, h1) \<Rightarrow>
    case WithValue_store h1 a k v2 of (b, h2) \<Rightarrow>
      take (length h1) h2 = h1 \<and> b \<noteq> a \<and>
      load h1 a = Some (WithValue (From e) k v1) \<and>
      load h2 a = Some (WithValue (From e) k v1) \<and>
      load h2 b = Some (WithValue (WithValue (From e) k v1) k v2) \<and>
      Get_store h1 a k = Some (Inr (v1, True)) \<and>
      Get_store h2 a k = Some (Inr (v1, True)) \<and>
      Get_store h2 b k = Some (Inr (v2, True))"
    using k by (simp add: WithValue_store_def Get_store_def nth_append From_def Get_own)
next
  fix h x key val r p
  assume "load h r = Some p"
  then show "load (snd (WithValue_store h x key val)) r = Some p"
    by (simp add: WithValue_store_def load_append)
next
  fix h :: store and x key val
  show "take (length h) (snd (WithValue_store h x key val)) = h"
    by (simp add: WithValue_store_def)
next
  fix h x key val p
  assume "load h x = Some p"
  then show "load (snd (WithValue_store h x key val)) (fst (WithValue_store h x key val))
        = Some (WithValue p key val)"
    by (rule load_WithValue_store)
qed

text \<open>The data of \<^verbatim>\<open>TestWithValue\<close>, in the empty store.\<close>

theorem WithValue_non_destructive_witness:
  "(case WithValue_store [] (baseError_val (Opaque \<lparr>message = ''hello'', stack = None, props = None, formatter = None\<rparr>))
          (VStr ''foo'') (VStr ''bar'') of (a, h1) \<Rightarrow>
    case WithValue_store h1 a (VStr ''foo'') (VStr ''baz'') of (b, h2) \<Rightarrow>
      take (length h1) h2 = h1 \<and> b \<noteq> a \<and>
      Get_store h1 a (VStr ''foo'') = Some (Inr (VStr ''bar'', True)) \<and>
      Get_store h2 a (VStr ''foo'') = Some (Inr (VStr ''bar'', True)) \<and>
      Get_store h2 b (VStr ''foo'') = Some (Inr (VStr ''baz'', True)))"
proof -
  have "go_eq (VStr ''foo'') (VStr ''foo'') = Inr True"
    by simp
  from WithValue_non_destructive [OF this, where ?h0.0 = "[]" and ?v1.0 = "VStr ''bar''" and ?v2.0 = "VStr ''baz''"]
  show ?thesis
    by (simp add: WithValue_store_def)
qed

text \<open>
  C5 as stated fails for a key of slice type: querying \<open>a\<close> for \<open>k\<close> does not yield \<open>v1\<close>,
  it panics in \<^verbatim>\<open>key == e.key\<close>.
\<close>

theorem WithValue_non_destructive_counterexample:
  "(case WithValue_store [] (baseError_val (Opaque \<lparr>message = ''hello'', stack = None, props = None, formatter = None\<rparr>))
          (VSlice [VInt 1]) (VStr ''bar'') of (a, h1) \<Rightarrow>
    case WithValue_store h1 a (VSlice [VInt 1]) (VStr ''baz'') of (b, h2) \<Rightarrow>
      Get_store h2 a (VSlice [VInt 1]) = Some (Inl Uncomparable)) \<and>
   Get (Prop (WithValue (From (Opaque \<lparr>message = ''hello'', stack = None, props = None, formatter = None\<rparr>))
      (VSlice [VInt 1]) (VStr ''bar''))) (VSlice [VInt 1]) = Inl Uncomparable"
  by (simp add: WithValue_store_def Get_store_def From_def Get_not_nil)

section \<open>Panics\<close>















section \<open>What \<^verbatim>\<open>Format\<close> writes\<close>

lemma buf_Fprint [simp]: "buf (Fprint f s) = buf f @ s"
  by (simp add: Fprint_def)

lemma flags_Fprint [simp]: "flags (Fprint f s) = flags f"
  by (simp add: Fprint_def)

lemma Fprint_Fprint: "Fprint (Fprint f s) t = Fprint f (s @ t)"
  by (simp add: Fprint_def)

lemma kv_format_eq:
  "kv_format f c =
     (if plus (flags f) then ''%+'' @ [c]
      else if sharp (flags f) then ''%#'' @ [c]
      else ''%'' @ [c])"
  by (simp add: kv_format_def Flag_def Let_def cong: if_cong)

lemma kv_format_Fprint [simp]: "kv_format (Fprint f s) c = kv_format f c"
  by (simp add: kv_format_eq)

lemma pair_text_pair: "pair_text pr format (k, v) = pr format k @ ''='' @ pr format v"
  by (simp add: pair_text_def)

lemma formatInner_text:
  "formatInner pr p k v f c =
     Fprint f (commas (map (pair_text pr (kv_format f c)) ((k, v) # chain_pairs p)))"
proof (induction p arbitrary: k v f rule: chain_base.induct)
  case (1 err)
  show ?case
    by (subst formatInner.simps) (simp add: Fprintf_pair_def pair_text_pair)
next
  case (2 p k' v')
  have same: "kv_format (Fprint (Fprintf_pair pr f (kv_format f c) k v) '','') c = kv_format f c"
    by (simp add: Fprintf_pair_def)
  show ?case
    by (subst formatInner.simps)
      (simp add: "2.IH" same Fprintf_pair_def pair_text_pair Fprint_Fprint)
qed

lemma Sprintf_baseError_Prop: "Sprintf pr fl c (baseError (Prop p)) = Sprintf pr fl c p"
  by (simp add: Sprintf_def)

lemma Format_text:
  fixes err :: error and p :: PropError
  shows "\<forall>f. formatBaseError pr (baseError err) f c
            = Fprint f (Sprintf pr (flags f) c (baseError err))"
    and "\<forall>f. Format pr p f c = Fprint f (Sprintf pr (flags f) c p) \<and>
             formatBaseError pr p f c = Fprint f (Sprintf pr (flags f) c (baseError (chain_base p)))"
proof (induction err and p)
  case nil_error
  show ?case by (simp add: Sprintf_def Fprint_def)
next
  case (Opaque fo)
  show ?case by (simp add: Sprintf_def Fprint_def split: option.splits)
next
  case (Wrapper fo x)
  show ?case by (simp add: Sprintf_def Fprint_def split: option.splits)
next
  case (Prop p)
  then show ?case by (simp add: Sprintf_baseError_Prop)
next
  case (baseError err)
  then show ?case by simp
next
  case (keyValueError p k v)
  have base: "formatBaseError pr p g c
      = Fprint g (Sprintf pr (flags g) c (baseError (chain_base p)))" for g
    using keyValueError.IH by simp
  have step: "Format pr (keyValueError p k v) g c =
      Fprint g (''['' @ commas (map (pair_text pr (kv_format g c)) ((k, v) # chain_pairs p)) @ ''] '' @
        Sprintf pr (flags g) c (baseError (chain_base p)))" for g
    by (simp add: formatInner_text base Fprint_Fprint)
  have whole: "Sprintf pr fl c (keyValueError p k v) =
      ''['' @ commas (map (pair_text pr (kv_format \<lparr>flags = fl, buf = []\<rparr> c)) ((k, v) # chain_pairs p)) @ ''] '' @
        Sprintf pr fl c (baseError (chain_base p))" for fl
    by (subst Sprintf_def) (simp add: step del: Format.simps)
  have fl: "kv_format \<lparr>flags = flags f, buf = []\<rparr> c = kv_format f c" for f :: fmt_State
    by (simp add: kv_format_eq)
  show ?case
    by (simp add: base step whole fl del: Format.simps)
qed

lemma Format_Sprintf: "Format pr p f c = Fprint f (Sprintf pr (flags f) c p)"
  using Format_text(2) by blast

lemma Sprintf_keyValueError:
  "Sprintf pr fl c (keyValueError p k v) =
     ''['' @ commas (map (pair_text pr (kv_format \<lparr>flags = fl, buf = []\<rparr> c)) ((k, v) # chain_pairs p)) @ ''] '' @
     Sprintf pr fl c (From (chain_base p))"
proof -
  have "formatBaseError pr p g c = Fprint g (Sprintf pr (flags g) c (baseError (chain_base p)))" for g
    using Format_text(2) by blast
  then show ?thesis
    by (subst Sprintf_def) (simp add: formatInner_text Fprint_Fprint From_def)
qed

lemma Sprintf_baseError:
  "Sprintf pr fl c (baseError err) =
     (case err of
        nil_error \<Rightarrow> ''<nil>''
      | Opaque fo \<Rightarrow> (case formatter fo of Some fm \<Rightarrow> fm fl c | None \<Rightarrow> message fo)
      | Wrapper fo x \<Rightarrow> (case formatter fo of Some fm \<Rightarrow> fm fl c | None \<Rightarrow> message fo)
      | Prop p \<Rightarrow> Sprintf pr fl c p)"
  by (simp add: Sprintf_def split: error.splits option.splits)

lemma chain_base_WithValues: "chain_base (WithValues p kvs) = chain_base p"
  by (induction kvs rule: rev_induct) (auto simp: WithValues_snoc WithValues_Nil)

lemma decimal_digit: "n < 10 \<Longrightarrow> decimal n = [digit n]"
  by (simp add: decimal.simps)

lemma flags_Format: "flags (Format pr q f c) = flags f"
  by (simp add: Format_Sprintf del: Format.simps)

text \<open>
  C7. For a decorated error with at least one key/value link, \<^verbatim>\<open>Format\<close> writes
  \<^verbatim>\<open>[\<close>, then its own pair, then a comma and the pair of each older link, newest
  first, down to the first \<^verbatim>\<open>baseError\<close>, then \<^verbatim>\<open>] \<close>, then what the \<^verbatim>\<open>baseError\<close>
  writes for the wrapped error: one bracket section, however many links are stacked.
  What the \<^verbatim>\<open>baseError\<close> writes is the wrapped error's own \<^verbatim>\<open>Format\<close> output when it is
  a \<^verbatim>\<open>fmt.Formatter\<close> (a decorated error is one), its \<^verbatim>\<open>Error()\<close> message when it is
  not, and \<^verbatim>\<open><nil>\<close> for the nil error.
  \<^verbatim>\<open>From(cause).WithValue("a",1).WithValue("b",2)\<close> under a plain \<^verbatim>\<open>%v\<close> is
  \<^verbatim>\<open>[b=2,a=1] \<close> followed by that plain rendering of \<open>cause\<close>: its message, for a
  foreign error with or without a cause of its own.
\<close>

theorem Format_brackets:
  "buf (Format pr (keyValueError p k v) f c) =
     buf f @ ''['' @ commas (map (pair_text pr (kv_format f c)) ((k, v) # chain_pairs p)) @ ''] '' @
     Sprintf pr (flags f) c (From (chain_base p)) \<and>
   Sprintf pr fl c (WithValues (From e) (kvs @ [(k, v)])) =
     ''['' @ commas (map (pair_text pr (kv_format \<lparr>flags = fl, buf = []\<rparr> c)) ((k, v) # rev kvs)) @ ''] '' @
     Sprintf pr fl c (From e) \<and>
   Sprintf pr no_flags (CHR ''v'')
       (WithValue (WithValue (From cause) (VStr ''a'') (VInt 1)) (VStr ''b'') (VInt 2)) =
     ''['' @ pr ''%v'' (VStr ''b'') @ ''='' @ pr ''%v'' (VInt 2) @ '','' @
            pr ''%v'' (VStr ''a'') @ ''='' @ pr ''%v'' (VInt 1) @ ''] '' @
     Sprintf pr no_flags (CHR ''v'') (From cause) \<and>
   Sprintf example_printer no_flags (CHR ''v'')
       (WithValue (WithValue (From (Opaque fo)) (VStr ''a'') (VInt 1)) (VStr ''b'') (VInt 2)) =
     ''[b=2,a=1] '' @ (case formatter fo of Some fm \<Rightarrow> fm no_flags (CHR ''v'') | None \<Rightarrow> message fo) \<and>
   Sprintf pr fl c (From cause) =
     (case cause of
        nil_error \<Rightarrow> ''<nil>''
      | Opaque fo \<Rightarrow> (case formatter fo of Some fm \<Rightarrow> fm fl c | None \<Rightarrow> message fo)
      | Wrapper fo x \<Rightarrow> (case formatter fo of Some fm \<Rightarrow> fm fl c | None \<Rightarrow> message fo)
      | Prop q \<Rightarrow> Sprintf pr fl c q) \<and>
   Format pr (From cause) f c = Fprint f (Sprintf pr (flags f) c (From cause)) \<and>
   Inr (Sprintf pr fl c (From (Opaque (fo\<lparr>formatter := None\<rparr>))))
     = Error (Opaque (fo\<lparr>formatter := None\<rparr>)) \<and>
   Inr (Sprintf pr fl c (From (Wrapper (fo\<lparr>formatter := None\<rparr>) x)))
     = Error (Wrapper (fo\<lparr>formatter := None\<rparr>) x) \<and>
   Sprintf example_printer no_flags (CHR ''v'')
       (WithValue (WithValue (From (Wrapper fo x)) (VStr ''a'') (VInt 1)) (VStr ''b'') (VInt 2)) =
     ''[b=2,a=1] '' @ (case formatter fo of Some fm \<Rightarrow> fm no_flags (CHR ''v'') | None \<Rightarrow> message fo) \<and>
   Sprintf example_printer no_flags (CHR ''v'')
       (WithValue (WithValue (From nil_error) (VStr ''a'') (VInt 1)) (VStr ''b'') (VInt 2)) =
     ''[b=2,a=1] <nil>'' \<and>
   Sprintf example_printer no_flags (CHR ''v'')
       (WithValue (WithValue (From (Prop q)) (VStr ''a'') (VInt 1)) (VStr ''b'') (VInt 2)) =
     ''[b=2,a=1] '' @ Sprintf example_printer no_flags (CHR ''v'') q \<and>
   Sprintf example_printer no_flags (CHR ''v'')
       (WithValue (WithValue
          (From (Wrapper \<lparr>message = ''outer: cause'', stack = None, props = None, formatter = None\<rparr>
             (Opaque \<lparr>message = ''cause'', stack = None, props = None, formatter = None\<rparr>)))
          (VStr ''a'') (VInt 1)) (VStr ''b'') (VInt 2)) =
     ''[b=2,a=1] outer: cause''"
proof (intro conjI)
  show "buf (Format pr (keyValueError p k v) f c) =
     buf f @ ''['' @ commas (map (pair_text pr (kv_format f c)) ((k, v) # chain_pairs p)) @ ''] '' @
     Sprintf pr (flags f) c (From (chain_base p))"
    by (simp add: Format_Sprintf Sprintf_keyValueError kv_format_eq del: Format.simps)
next
  show "Sprintf pr fl c (WithValues (From e) (kvs @ [(k, v)])) =
     ''['' @ commas (map (pair_text pr (kv_format \<lparr>flags = fl, buf = []\<rparr> c)) ((k, v) # rev kvs)) @ ''] '' @
     Sprintf pr fl c (From e)"
    by (simp add: WithValues_snoc Sprintf_keyValueError chain_pairs_WithValues chain_base_WithValues)
      (simp add: From_def)
next
  have plain: "kv_format \<lparr>flags = no_flags, buf = []\<rparr> (CHR ''v'') = ''%v''"
    by (simp add: kv_format_eq no_flags_def)
  show "Sprintf pr no_flags (CHR ''v'')
       (WithValue (WithValue (From cause) (VStr ''a'') (VInt 1)) (VStr ''b'') (VInt 2)) =
     ''['' @ pr ''%v'' (VStr ''b'') @ ''='' @ pr ''%v'' (VInt 2) @ '','' @
            pr ''%v'' (VStr ''a'') @ ''='' @ pr ''%v'' (VInt 1) @ ''] '' @
     Sprintf pr no_flags (CHR ''v'') (From cause)"
    by (simp add: WithValue_eq Sprintf_keyValueError plain pair_text_pair) (simp add: From_def)
  have example: "Sprintf example_printer no_flags (CHR ''v'')
       (WithValue (WithValue (From err) (VStr ''a'') (VInt 1)) (VStr ''b'') (VInt 2)) =
     ''[b=2,a=1] '' @ Sprintf example_printer no_flags (CHR ''v'') (baseError err)" for err
    by (simp add: WithValue_eq Sprintf_keyValueError plain pair_text_pair)
      (simp add: From_def example_printer_def decimal_digit digit_def)
  show "Sprintf example_printer no_flags (CHR ''v'')
       (WithValue (WithValue (From (Opaque fo)) (VStr ''a'') (VInt 1)) (VStr ''b'') (VInt 2)) =
     ''[b=2,a=1] '' @ (case formatter fo of Some fm \<Rightarrow> fm no_flags (CHR ''v'') | None \<Rightarrow> message fo)"
    by (simp only: example) (simp add: Sprintf_baseError)
  show "Sprintf example_printer no_flags (CHR ''v'')
       (WithValue (WithValue (From (Wrapper fo x)) (VStr ''a'') (VInt 1)) (VStr ''b'') (VInt 2)) =
     ''[b=2,a=1] '' @ (case formatter fo of Some fm \<Rightarrow> fm no_flags (CHR ''v'') | None \<Rightarrow> message fo)"
    by (simp only: example) (simp add: Sprintf_baseError)
  show "Sprintf example_printer no_flags (CHR ''v'')
       (WithValue (WithValue (From nil_error) (VStr ''a'') (VInt 1)) (VStr ''b'') (VInt 2)) =
     ''[b=2,a=1] <nil>''"
    by (simp only: example) (simp add: Sprintf_baseError)
  show "Sprintf example_printer no_flags (CHR ''v'')
       (WithValue (WithValue (From (Prop q)) (VStr ''a'') (VInt 1)) (VStr ''b'') (VInt 2)) =
     ''[b=2,a=1] '' @ Sprintf example_printer no_flags (CHR ''v'') q"
    by (simp only: example) (simp add: Sprintf_baseError)
  show "Sprintf example_printer no_flags (CHR ''v'')
       (WithValue (WithValue
          (From (Wrapper \<lparr>message = ''outer: cause'', stack = None, props = None, formatter = None\<rparr>
             (Opaque \<lparr>message = ''cause'', stack = None, props = None, formatter = None\<rparr>)))
          (VStr ''a'') (VInt 1)) (VStr ''b'') (VInt 2)) =
     ''[b=2,a=1] outer: cause''"
    by (simp only: example) (simp add: Sprintf_baseError)
next
  show "Sprintf pr fl c (From cause) =
     (case cause of
        nil_error \<Rightarrow> ''<nil>''
      | Opaque fo \<Rightarrow> (case formatter fo of Some fm \<Rightarrow> fm fl c | None \<Rightarrow> message fo)
      | Wrapper fo x \<Rightarrow> (case formatter fo of Some fm \<Rightarrow> fm fl c | None \<Rightarrow> message fo)
      | Prop q \<Rightarrow> Sprintf pr fl c q)"
    by (simp add: From_def Sprintf_baseError)
next
  show "Format pr (From cause) f c = Fprint f (Sprintf pr (flags f) c (From cause))"
    by (rule Format_Sprintf)
next
  show "Inr (Sprintf pr fl c (From (Opaque (fo\<lparr>formatter := None\<rparr>))))
     = Error (Opaque (fo\<lparr>formatter := None\<rparr>))"
    by (simp add: From_def Sprintf_baseError)
next
  show "Inr (Sprintf pr fl c (From (Wrapper (fo\<lparr>formatter := None\<rparr>) x)))
     = Error (Wrapper (fo\<lparr>formatter := None\<rparr>) x)"
    by (simp add: From_def Sprintf_baseError)
qed

text \<open>
  C8 (as the code has it). The flags \<^verbatim>\<open>+\<close> and \<^verbatim>\<open>#\<close> select the directive of the
  pairs: \<^verbatim>\<open>%+c\<close> when \<^verbatim>\<open>+\<close> is set (also when both are set), \<^verbatim>\<open>%#c\<close> when only
  \<^verbatim>\<open>#\<close> is set, \<^verbatim>\<open>%c\<close> otherwise. That one directive renders every key and every value
  of the chain; no step changes the flags of the state; and the wrapped error's own
  \<^verbatim>\<open>Format\<close> receives the state's flags and the verb unchanged (a wrapped error that is
  no \<^verbatim>\<open>fmt.Formatter\<close> is printed by \<^verbatim>\<open>fmt.Fprint\<close>, without the flags).
\<close>

theorem flags_threaded:
  "kv_format f c =
     (if plus (flags f) then ''%+'' @ [c]
      else if sharp (flags f) then ''%#'' @ [c]
      else ''%'' @ [c]) \<and>
   buf (formatInner pr p k v f c) =
     buf f @ commas (map (pair_text pr (kv_format f c)) ((k, v) # chain_pairs p)) \<and>
   flags (formatInner pr p k v f c) = flags f \<and>
   flags (Format pr q f c) = flags f \<and>
   Format pr (keyValueError p k v) f c =
     Format pr (From (chain_base p))
       (Fprint f (''['' @ commas (map (pair_text pr (kv_format f c)) ((k, v) # chain_pairs p)) @ ''] '')) c \<and>
   Format pr (From (Prop q)) f c = Format pr q f c \<and>
   (\<forall>fo fm. formatter fo = Some fm \<longrightarrow>
      Format pr (From (Opaque fo)) f c = Fprint f (fm (flags f) c) \<and>
      (\<forall>x. Format pr (From (Wrapper fo x)) f c = Fprint f (fm (flags f) c))) \<and>
   (\<forall>fo. formatter fo = None \<longrightarrow>
      Format pr (From (Opaque fo)) f c = Fprint f (message fo) \<and>
      (\<forall>x. Format pr (From (Wrapper fo x)) f c = Fprint f (message fo)))"
proof (intro conjI)
  show "kv_format f c =
     (if plus (flags f) then ''%+'' @ [c]
      else if sharp (flags f) then ''%#'' @ [c]
      else ''%'' @ [c])"
    by (rule kv_format_eq)
next
  show "buf (formatInner pr p k v f c) =
     buf f @ commas (map (pair_text pr (kv_format f c)) ((k, v) # chain_pairs p))"
    by (simp add: formatInner_text)
next
  show "flags (formatInner pr p k v f c) = flags f"
    by (simp add: formatInner_text)
next
  show "flags (Format pr q f c) = flags f"
    by (rule flags_Format)
next
  have "formatBaseError pr p g c = Fprint g (Sprintf pr (flags g) c (baseError (chain_base p)))" for g
    using Format_text(2) by blast
  then show "Format pr (keyValueError p k v) f c =
     Format pr (From (chain_base p))
       (Fprint f (''['' @ commas (map (pair_text pr (kv_format f c)) ((k, v) # chain_pairs p)) @ ''] '')) c"
    by (simp add: formatInner_text Fprint_Fprint From_def Format_Sprintf [of pr "baseError e" for e]
        del: Format.simps(1)) 
next
  show "Format pr (From (Prop q)) f c = Format pr q f c"
    by (simp add: From_def)
next
  show "\<forall>fo fm. formatter fo = Some fm \<longrightarrow>
      Format pr (From (Opaque fo)) f c = Fprint f (fm (flags f) c) \<and>
      (\<forall>x. Format pr (From (Wrapper fo x)) f c = Fprint f (fm (flags f) c))"
    by (simp add: From_def)
next
  show "\<forall>fo. formatter fo = None \<longrightarrow>
      Format pr (From (Opaque fo)) f c = Fprint f (message fo) \<and>
      (\<forall>x. Format pr (From (Wrapper fo x)) f c = Fprint f (message fo))"
    by (simp add: From_def)
qed

text \<open>
  With only \<^verbatim>\<open>#\<close> set, both pairs are rendered under \<^verbatim>\<open>%#v\<close> and the wrapped error's
  \<^verbatim>\<open>Format\<close> sees \<^verbatim>\<open>#\<close> and the verb. (The printer shows the directive it is given,
  the wrapped error shows the flags it is given.)
\<close>

theorem flags_threaded_witness:
  "Sprintf (\<lambda>format x. format) (no_flags\<lparr>sharp := True\<rparr>) (CHR ''v'')
     (WithValue
        (WithValue
          (From (Opaque \<lparr>message = ''cause'', stack = None, props = None,
             formatter = Some (\<lambda>fl c. (if plus fl then ''+'' else []) @ (if sharp fl then ''#'' else []) @ [c])\<rparr>))
          (VStr ''key'') (VStr ''value''))
        (VStr ''foo'') (VStr ''bar''))
     = ''[%#v=%#v,%#v=%#v] #v''"
proof -
  let ?fm = "\<lambda>fl c. (if plus fl then ''+'' else []) @ (if sharp fl then ''#'' else []) @ [c]"
  let ?fo = "\<lparr>message = ''cause'', stack = None, props = None, formatter = Some ?fm\<rparr>"
  let ?f = "\<lparr>flags = no_flags\<lparr>sharp := True\<rparr>, buf = []\<rparr>"
  let ?g = "\<lparr>flags = no_flags\<lparr>sharp := True\<rparr>, buf = ''[%#v=%#v,%#v=%#v] ''\<rparr>"
  let ?pr = "\<lambda>format x. format :: string"
  let ?p = "baseError (Opaque ?fo)"
  let ?q = "keyValueError ?p (VStr ''key'') (VStr ''value'')"
  note at_f = flags_threaded [of ?f "CHR ''v''" ?pr ?q "VStr ''foo''" "VStr ''bar''" ?p]
  note at_g = flags_threaded [of ?g "CHR ''v''" ?pr ?q "VStr ''foo''" "VStr ''bar''" ?p]
  from at_f have directive: "kv_format ?f (CHR ''v'') = ''%#v''"
    by (simp add: no_flags_def)
  from at_f have "Format ?pr (keyValueError ?q (VStr ''foo'') (VStr ''bar'')) ?f (CHR ''v'') =
     Format ?pr (From (Opaque ?fo))
       (Fprint ?f (''['' @ commas (map (pair_text ?pr (kv_format ?f (CHR ''v'')))
          [(VStr ''foo'', VStr ''bar''), (VStr ''key'', VStr ''value'')]) @ ''] '')) (CHR ''v'')"
    by simp
  then have brackets: "Format ?pr (keyValueError ?q (VStr ''foo'') (VStr ''bar'')) ?f (CHR ''v'') =
     Format ?pr (From (Opaque ?fo)) ?g (CHR ''v'')"
    by (simp only: directive) (simp add: pair_text_pair Fprint_def)
  have "formatter ?fo = Some ?fm"
    by simp
  with at_g have wrapped: "Format ?pr (From (Opaque ?fo)) ?g (CHR ''v'') = Fprint ?g (?fm (flags ?g) (CHR ''v''))"
    by blast
  have "Sprintf ?pr (no_flags\<lparr>sharp := True\<rparr>) (CHR ''v'') (keyValueError ?q (VStr ''foo'') (VStr ''bar''))
      = buf (Fprint ?g (?fm (flags ?g) (CHR ''v'')))"
    unfolding Sprintf_def by (simp only: brackets wrapped)
  then show ?thesis
    by (simp add: WithValue_eq From_def no_flags_def)
qed

text \<open>
  C8 as stated fails when both flags are set: the pairs are rendered under \<^verbatim>\<open>%+v\<close>,
  without \<^verbatim>\<open>#\<close>, while the wrapped error's \<^verbatim>\<open>Format\<close> sees both flags; with the
  example printer the strings of the pairs come out unquoted, where \<^verbatim>\<open>#\<close> alone quotes
  them.
\<close>

theorem flags_threaded_counterexample:
  "kv_format \<lparr>flags = no_flags\<lparr>plus := True, sharp := True\<rparr>, buf = []\<rparr> (CHR ''v'') = ''%+v'' \<and>
   Sprintf (\<lambda>format x. format) (no_flags\<lparr>plus := True, sharp := True\<rparr>) (CHR ''v'')
     (WithValue
        (From (Opaque \<lparr>message = ''cause'', stack = None, props = None,
           formatter = Some (\<lambda>fl c. (if plus fl then ''+'' else []) @ (if sharp fl then ''#'' else []) @ [c])\<rparr>))
        (VStr ''key'') (VStr ''value''))
     = ''[%+v=%+v] +#v'' \<and>
   Sprintf example_printer (no_flags\<lparr>plus := True, sharp := True\<rparr>) (CHR ''v'')
     (WithValue (From (Opaque \<lparr>message = ''cause'', stack = None, props = None, formatter = None\<rparr>))
        (VStr ''key'') (VStr ''value''))
     = ''[key=value] cause'' \<and>
   Sprintf example_printer (no_flags\<lparr>sharp := True\<rparr>) (CHR ''v'')
     (WithValue (From (Opaque \<lparr>message = ''cause'', stack = None, props = None, formatter = None\<rparr>))
        (VStr ''key'') (VStr ''value''))
     = ''['' @ [CHR 0x22] @ ''key'' @ [CHR 0x22] @ ''='' @ [CHR 0x22] @ ''value'' @ [CHR 0x22] @ ''] cause''"
  by (simp add: Sprintf_def From_def formatInner.simps Fprint_def Fprintf_pair_def kv_format_def
      Flag_def no_flags_def example_printer_def)

end
